theory Spec2Isabelle
  imports Complex_Main "HOL-Library.Char_ord" "HOL-Library.List_Lexorder"
begin

unbundle bit_operations_syntax

section \<open>Python values used by GuestAgentLinux2.py\<close>

text \<open>
  The exceptions that the modelled functions can raise. A function that can raise returns
  \<open>error + 'a\<close>, with \<open>Inl\<close> for the exception; a method that mutates the object before
  it raises returns the outcome together with the state it leaves behind.
\<close>

datatype error = IOError | ValueError | ZeroDivisionError | UnboundLocalError | OSError
  | IndexError

text \<open>\<^verbatim>\<open>str.split()\<close> without arguments: the maximal runs of non-whitespace characters.\<close>

definition is_space :: "char \<Rightarrow> bool" where
  "is_space c = (c \<in> set [CHR '' '', CHR 0x09, CHR 0x0A, CHR 0x0B, CHR 0x0C, CHR 0x0D])"

fun split_acc :: "string \<Rightarrow> string \<Rightarrow> string list" where
  "split_acc w [] = (if w = [] then [] else [w])"
| "split_acc w (c # cs) =
     (if is_space c then (if w = [] then split_acc [] cs else w # split_acc [] cs)
      else split_acc (w @ [c]) cs)"

definition split_ws :: "string \<Rightarrow> string list" where
  "split_ws s = split_acc [] s"

text \<open>
  \<^verbatim>\<open>int(s)\<close> on a string without surrounding whitespace: an optional sign and at least one
  decimal digit, anything else raises ValueError.
\<close>

definition is_digit :: "char \<Rightarrow> bool" where
  "is_digit c = (48 \<le> (of_char c :: nat) \<and> (of_char c :: nat) \<le> 57)"

definition digit_val :: "char \<Rightarrow> int" where
  "digit_val c = int (of_char c) - 48"

definition digits_val :: "string \<Rightarrow> int" where
  "digits_val ds = foldl (\<lambda>a c. 10 * a + digit_val c) 0 ds"

definition py_int :: "string \<Rightarrow> error + int" where
  "py_int s =
     (case s of
        [] \<Rightarrow> Inl ValueError
      | c # r \<Rightarrow>
          (let neg = (c = CHR ''-'');
               ds = (if c = CHR ''-'' \<or> c = CHR ''+'' then r else s)
           in if ds = [] \<or> \<not> list_all is_digit ds then Inl ValueError
              else Inr (if neg then - digits_val ds else digits_val ds)))"

text \<open>\<^verbatim>\<open>"%d" % n\<close>: the decimal digits of an integer, with a minus sign when negative.\<close>

function str_nat :: "nat \<Rightarrow> string" where
  "str_nat n =
     (if n < 10 then [char_of (48 + n)] else str_nat (n div 10) @ [char_of (48 + n mod 10)])"
  by pat_completeness auto
termination
  by (relation "measure id") auto

declare str_nat.simps [simp del]

definition fmt_d :: "int \<Rightarrow> string" where
  "fmt_d n = (if n < 0 then CHR ''-'' # str_nat (nat (- n)) else str_nat (nat n))"

text \<open>
  \<^verbatim>\<open>int(x)\<close> on a float truncates toward zero. Timestamps (\<^verbatim>\<open>time.time()\<close>) and the
  quotients computed from them are modelled as exact real numbers.
\<close>

definition py_trunc :: "real \<Rightarrow> int" where
  "py_trunc x = (if 0 \<le> x then \<lfloor>x\<rfloor> else \<lceil>x\<rceil>)"

section \<open>CommandHandlerLinux\<close>

text \<open>
  \<^verbatim>\<open>subprocess.call(cmd)\<close>: the exit status of the child, or OSError when the program
  cannot be started. The launcher is the environment of the command handler.
\<close>

type_synonym launcher = "string list \<Rightarrow> error + int"

text \<open>The statement \<^verbatim>\<open>subprocess.call(cmd)\<close>, whose value the handlers discard.\<close>

definition subprocess_call :: "launcher \<Rightarrow> string list \<Rightarrow> error + unit" where
  "subprocess_call launch cmd = (case launch cmd of Inl e \<Rightarrow> Inl e | Inr rc \<Rightarrow> Inr ())"

definition lock_screen :: "launcher \<Rightarrow> error + unit" where
  "lock_screen launch =
     subprocess_call launch [''/usr/share/ovirt-guest-agent/ovirt-locksession'']"

definition shutdown :: "launcher \<Rightarrow> int \<Rightarrow> string \<Rightarrow> bool \<Rightarrow> error + unit" where
  "shutdown launch timeout msg reboot =
     (let delay = (timeout + 59) div 60;
          param = (if reboot then ''-r'' else ''-h'');
          cmd = [''/usr/share/ovirt-guest-agent/ovirt-shutdown'', param,
                 ''+'' @ fmt_d delay, [CHR 0x22] @ msg @ [CHR 0x22]]
      in subprocess_call launch cmd)"

definition hibernate :: "launcher \<Rightarrow> string \<Rightarrow> error + unit" where
  "hibernate launch state =
     subprocess_call launch [''/usr/share/ovirt-guest-agent/ovirt-hibernate'', state]"

section \<open>LinuxDataRetriver: memory statistics\<close>

text \<open>
  The part of the object that \<^verbatim>\<open>getMemoryStats\<close> reads and writes. The dictionary
  \<^verbatim>\<open>self.vmstat\<close> has the keys \<^verbatim>\<open>timestamp_prev\<close>, \<^verbatim>\<open>timestamp_cur\<close> and, for each
  counter name, \<^verbatim>\<open>name_prev\<close> and \<^verbatim>\<open>name_cur\<close>; the record has one field for each of the
  two timestamps and one map from the counter name for each of the two suffixes, where
  \<open>None\<close> is Python's \<^verbatim>\<open>None\<close>. \<^verbatim>\<open>self.memStats\<close> is the snapshot handed to the caller;
  it is created by the base class, so its initial content is a parameter.
\<close>

record retriever =
  timestamp_prev :: real
  timestamp_cur :: "real option"
  vmstat_prev :: "string \<rightharpoonup> int"
  vmstat_cur :: "string \<rightharpoonup> int"
  memStats :: "string \<rightharpoonup> int"

definition init_vmstat :: "real \<Rightarrow> retriever \<Rightarrow> retriever" where
  "init_vmstat now r =
     r\<lparr>timestamp_prev := now, timestamp_cur := None,
       vmstat_prev := Map.empty, vmstat_cur := Map.empty\<rparr>"

text \<open>
  \<^verbatim>\<open>(key, value) = line.strip().split()[0:2]\<close>: unpacking fewer than two tokens raises
  ValueError.
\<close>

definition parse_line :: "string \<Rightarrow> error + (string \<times> string)" where
  "parse_line line =
     (case take 2 (split_ws line) of
        [key, val] \<Rightarrow> Inr (key, val)
      | _ \<Rightarrow> Inl ValueError)"

subsection \<open>\<^verbatim>\<open>_get_meminfo\<close>\<close>

text \<open>
  The local dictionary \<^verbatim>\<open>fields\<close> always has the same six keys, so it is a total
  function together with the list of its keys. The loop carries it together with the
  local sum \<^verbatim>\<open>free\<close>; its body has the two \<^verbatim>\<open>if\<close> statements of the source, each
  with its own \<^verbatim>\<open>int(value)\<close>.
\<close>

definition meminfo_keys :: "string list" where
  "meminfo_keys =
     [''MemTotal:'', ''MemFree:'', ''Buffers:'', ''Cached:'', ''SwapFree:'', ''SwapTotal:'']"

definition meminfo_line ::
  "string \<Rightarrow> (string \<Rightarrow> int) \<times> int \<Rightarrow> error + ((string \<Rightarrow> int) \<times> int)" where
  "meminfo_line line acc =
     (case parse_line line of
        Inl e \<Rightarrow> Inl e
      | Inr (key, val) \<Rightarrow>
          (case (if key \<in> set meminfo_keys
                 then (case py_int val of
                         Inl e \<Rightarrow> Inl e
                       | Inr v \<Rightarrow> Inr ((fst acc)(key := v)))
                 else Inr (fst acc)) of
             Inl e \<Rightarrow> Inl e
           | Inr flds \<Rightarrow>
               (if key \<in> set [''MemFree:'', ''Buffers:'', ''Cached:'']
                then (case py_int val of
                        Inl e \<Rightarrow> Inl e
                      | Inr v \<Rightarrow> Inr (flds, snd acc + v))
                else Inr (flds, snd acc))))"

fun meminfo_loop ::
  "string list \<Rightarrow> (string \<Rightarrow> int) \<times> int \<Rightarrow> error + ((string \<Rightarrow> int) \<times> int)" where
  "meminfo_loop [] acc = Inr acc"
| "meminfo_loop (l # ls) acc =
     (case meminfo_line l acc of Inl e \<Rightarrow> Inl e | Inr acc' \<Rightarrow> meminfo_loop ls acc')"

text \<open>
  The source is the list of the lines of \<^verbatim>\<open>/proc/meminfo\<close>, or \<open>None\<close> when the file
  cannot be opened. The snapshot is written only after the whole file has been read.
\<close>

definition get_meminfo :: "string list option \<Rightarrow> retriever \<Rightarrow> (error + unit) \<times> retriever" where
  "get_meminfo src r =
     (case src of
        None \<Rightarrow> (Inl IOError, r)
      | Some ls \<Rightarrow>
          (case meminfo_loop ls (\<lambda>k. 0, 0) of
             Inl e \<Rightarrow> (Inl e, r)
           | Inr (flds, free) \<Rightarrow>
               (Inr (),
                r\<lparr>memStats := (memStats r)
                  (''mem_total'' \<mapsto> flds ''MemTotal:'',
                   ''mem_unused'' \<mapsto> flds ''MemFree:'',
                   ''mem_free'' \<mapsto> free,
                   ''mem_buffers'' \<mapsto> flds ''Buffers:'',
                   ''mem_cached'' \<mapsto> flds ''Cached:'',
                   ''swap_usage'' \<mapsto> flds ''SwapTotal:'' - flds ''SwapFree:'',
                   ''swap_total'' \<mapsto> flds ''SwapTotal:'')\<rparr>)))"

subsection \<open>\<^verbatim>\<open>_get_vmstat\<close>\<close>

definition vmstat_fields :: "(string \<times> string) list" where
  "vmstat_fields =
     [(''pswpin'', ''swap_in''), (''pswpout'', ''swap_out''),
      (''pgfault'', ''pageflt''), (''pgmajfault'', ''majflt'')]"

text \<open>
  The body of the loop over the lines of \<^verbatim>\<open>/proc/vmstat\<close>, with the assignments in the
  order of the source: the old current value becomes the previous one, the new value is
  parsed and stored, a previous value of \<^verbatim>\<open>None\<close> is replaced by the current one, and the
  rate is the difference divided by the (float) interval, converted by \<^verbatim>\<open>int\<close>. A float
  division by zero raises ZeroDivisionError. What was assigned before an exception stays
  assigned.
\<close>

definition vmstat_line :: "real \<Rightarrow> string \<Rightarrow> retriever \<Rightarrow> (error + unit) \<times> retriever" where
  "vmstat_line interval line r =
     (case parse_line line of
        Inl e \<Rightarrow> (Inl e, r)
      | Inr (key, val) \<Rightarrow>
          (case map_of vmstat_fields key of
             None \<Rightarrow> (Inr (), r)
           | Some name \<Rightarrow>
               (let r1 = r\<lparr>vmstat_prev := (vmstat_prev r)(name := vmstat_cur r name)\<rparr>
                in case py_int val of
                     Inl e \<Rightarrow> (Inl e, r1)
                   | Inr v \<Rightarrow>
                       (let r2 = r1\<lparr>vmstat_cur := (vmstat_cur r1)(name \<mapsto> v)\<rparr>;
                            p = (case vmstat_prev r2 name of None \<Rightarrow> v | Some p \<Rightarrow> p);
                            r3 = r2\<lparr>vmstat_prev := (vmstat_prev r2)(name \<mapsto> p)\<rparr>
                        in if interval = 0 then (Inl ZeroDivisionError, r3)
                           else (Inr (),
                                 r3\<lparr>memStats := (memStats r3)
                                   (name \<mapsto> py_trunc (of_int (v - p) / interval))\<rparr>)))))"

fun vmstat_loop :: "real \<Rightarrow> string list \<Rightarrow> retriever \<Rightarrow> (error + unit) \<times> retriever" where
  "vmstat_loop interval [] r = (Inr (), r)"
| "vmstat_loop interval (l # ls) r =
     (case vmstat_line interval l r of
        (Inl e, r') \<Rightarrow> (Inl e, r')
      | (Inr u, r') \<Rightarrow> vmstat_loop interval ls r')"

text \<open>
  \<open>now\<close> is the value of \<^verbatim>\<open>time.time()\<close>; the source is the list of the lines of
  \<^verbatim>\<open>/proc/vmstat\<close>, or \<open>None\<close> when the file cannot be opened.
\<close>

definition get_vmstat ::
  "real \<Rightarrow> string list option \<Rightarrow> retriever \<Rightarrow> (error + unit) \<times> retriever" where
  "get_vmstat now src r =
     (let r1 = r\<lparr>timestamp_cur := Some now\<rparr>;
          interval = now - timestamp_prev r1;
          r2 = r1\<lparr>timestamp_prev := now\<rparr>
      in case src of
           None \<Rightarrow> (Inl IOError, r2)
         | Some ls \<Rightarrow> vmstat_loop interval ls r2)"

subsection \<open>\<^verbatim>\<open>getMemoryStats\<close>\<close>

text \<open>
  The bare \<^verbatim>\<open>except\<close> catches whatever the two readers raise, and the method returns
  \<^verbatim>\<open>self.memStats\<close> in every case: the result is the snapshot and the object's new state.
  The clock is read inside \<^verbatim>\<open>_get_vmstat\<close>, that is only when \<^verbatim>\<open>_get_meminfo\<close> has
  returned.
\<close>

definition getMemoryStats ::
  "real \<Rightarrow> string list option \<Rightarrow> string list option \<Rightarrow> retriever
     \<Rightarrow> (string \<rightharpoonup> int) \<times> retriever" where
  "getMemoryStats now meminfo vmstat r =
     (case get_meminfo meminfo r of
        (Inl e, r1) \<Rightarrow> (memStats r1, r1)
      | (Inr u, r1) \<Rightarrow>
          (case get_vmstat now vmstat r1 of (out, r2) \<Rightarrow> (memStats r2, r2)))"

subsection \<open>Notions used to state the properties of the sampler\<close>

text \<open>
  The counter that a line of \<^verbatim>\<open>/proc/vmstat\<close> addresses, if any; whether the loop body
  of \<^verbatim>\<open>_get_vmstat\<close>, respectively of \<^verbatim>\<open>_get_meminfo\<close>, gets past a line without a
  ValueError.
\<close>

definition line_name :: "string \<Rightarrow> string option" where
  "line_name line =
     (case parse_line line of Inl e \<Rightarrow> None | Inr (key, val) \<Rightarrow> map_of vmstat_fields key)"

definition vmstat_line_ok :: "string \<Rightarrow> bool" where
  "vmstat_line_ok line =
     (case parse_line line of
        Inl e \<Rightarrow> False
      | Inr (key, val) \<Rightarrow>
          (case map_of vmstat_fields key of
             None \<Rightarrow> True
           | Some name \<Rightarrow> (case py_int val of Inl e \<Rightarrow> False | Inr v \<Rightarrow> True)))"

definition meminfo_line_ok :: "string \<Rightarrow> bool" where
  "meminfo_line_ok line =
     (case parse_line line of
        Inl e \<Rightarrow> False
      | Inr (key, val) \<Rightarrow>
          (if key \<in> set meminfo_keys
           then (case py_int val of Inl e \<Rightarrow> False | Inr v \<Rightarrow> True)
           else True))"

text \<open>The four counter names under which the rates appear in the snapshot.\<close>

definition rate_names :: "string list" where
  "rate_names = map snd vmstat_fields"

subsection \<open>Construction and example runs\<close>

text \<open>
  Modelled from the spec: the snapshot that the constructor of the base class
  \<^verbatim>\<open>DataRetriverBase\<close> installs in \<^verbatim>\<open>self.memStats\<close>. The base class is not among the
  sources; the spec calls it the all-zero snapshot.
\<close>

definition zero_snapshot :: "string \<rightharpoonup> int" where
  "zero_snapshot =
     map_of (map (\<lambda>k. (k, 0))
       [''mem_total'', ''mem_unused'', ''mem_free'', ''mem_buffers'', ''mem_cached'',
        ''swap_usage'', ''swap_total'', ''swap_in'', ''swap_out'', ''pageflt'', ''majflt''])"

text \<open>
  What \<^verbatim>\<open>LinuxDataRetriver.__init__\<close> leaves in the fields above: \<^verbatim>\<open>_init_vmstat\<close> run
  at clock \<open>now\<close>, and the snapshot \<open>ms\<close> of the base class.
\<close>

definition new_retriever :: "real \<Rightarrow> (string \<rightharpoonup> int) \<Rightarrow> retriever" where
  "new_retriever now ms =
     (init_vmstat now
        \<lparr>timestamp_prev = 0, timestamp_cur = None, vmstat_prev = Map.empty,
         vmstat_cur = Map.empty, memStats = Map.empty\<rparr>)\<lparr>memStats := ms\<rparr>"

definition ex_meminfo :: "string list" where
  "ex_meminfo =
     [''MemTotal:  1000 kB'', ''MemFree: 200 kB'', ''Buffers: 30 kB'', ''Cached: 4 kB'',
      ''SwapTotal: 50 kB'', ''SwapFree: 20 kB'']"

definition ex_vmstat :: "int \<Rightarrow> int \<Rightarrow> string list" where
  "ex_vmstat a b = [''nr_free_pages 5'', ''pswpin '' @ fmt_d a, ''pswpout '' @ fmt_d b]"

text \<open>An agent started at clock 0 whose first sample, at clock 1, read the counters 10 and 20.\<close>

definition ex_r1 :: retriever where
  "ex_r1 =
     snd (getMemoryStats 1 (Some ex_meminfo) (Some (ex_vmstat 10 20))
            (new_retriever 0 zero_snapshot))"

text \<open>A memory source whose second line has a single token.\<close>

definition ex_bad_meminfo :: "string list" where
  "ex_bad_meminfo = [''MemTotal:  1000 kB'', ''Bogus'', ''MemFree: 200 kB'']"

text \<open>The same agent after a second sample, at clock 3, that read the counters 30 and 20.\<close>

definition ex_r2 :: retriever where
  "ex_r2 = snd (getMemoryStats 3 (Some ex_meminfo) (Some (ex_vmstat 30 20)) ex_r1)"

section \<open>LinuxDataRetriver: disk usage\<close>

record statvfs_result =
  f_bsize :: int
  f_blocks :: int
  f_bfree :: int

record disk_usage =
  usage_path :: string
  usage_fs :: string
  usage_total :: int
  usage_used :: int

text \<open>
  The body of the inner \<^verbatim>\<open>try\<close> for one line of the mount table. The codec
  \<^verbatim>\<open>path.decode("string-escape")\<close> and \<^verbatim>\<open>os.statvfs\<close> belong to the environment and may
  raise. The result is the entry to append, or \<open>None\<close> for an ignored file system.
\<close>

definition mount_entry ::
  "string set \<Rightarrow> (string \<Rightarrow> error + string) \<Rightarrow> (string \<Rightarrow> error + statvfs_result)
     \<Rightarrow> string \<Rightarrow> error + disk_usage option" where
  "mount_entry ignored_fs decode statvfs mount =
     (case take 3 (split_ws mount) of
        [device, path, fs] \<Rightarrow>
          (if fs \<notin> ignored_fs then
             (case decode path of
                Inl e \<Rightarrow> Inl e
              | Inr path' \<Rightarrow>
                  (case statvfs path' of
                     Inl e \<Rightarrow> Inl e
                   | Inr st \<Rightarrow>
                       (let total = f_bsize st * f_blocks st;
                            used = total - f_bsize st * f_bfree st
                        in Inr (Some \<lparr>usage_path = path', usage_fs = fs,
                                      usage_total = total, usage_used = used\<rparr>))))
           else Inr None)
      | _ \<Rightarrow> Inl ValueError)"

text \<open>The loop over the mount table: the inner \<^verbatim>\<open>except\<close> logs and goes on to the next line.\<close>

fun mounts_loop ::
  "string set \<Rightarrow> (string \<Rightarrow> error + string) \<Rightarrow> (string \<Rightarrow> error + statvfs_result)
     \<Rightarrow> string list \<Rightarrow> disk_usage list \<Rightarrow> disk_usage list" where
  "mounts_loop ignored_fs decode statvfs [] usages = usages"
| "mounts_loop ignored_fs decode statvfs (mount # ms) usages =
     (case mount_entry ignored_fs decode statvfs mount of
        Inr (Some u) \<Rightarrow> mounts_loop ignored_fs decode statvfs ms (usages @ [u])
      | Inr None \<Rightarrow> mounts_loop ignored_fs decode statvfs ms usages
      | Inl e \<Rightarrow> mounts_loop ignored_fs decode statvfs ms usages)"

text \<open>
  The mount table is the list of the lines of \<^verbatim>\<open>/proc/mounts\<close>, or \<open>None\<close> when
  \<^verbatim>\<open>open\<close> raises. In that case the local variable \<^verbatim>\<open>mounts\<close> has not been assigned when
  the handler of the outer \<^verbatim>\<open>try\<close> evaluates \<^verbatim>\<open>if mounts:\<close>, which raises
  UnboundLocalError from inside the handler, so out of the method. A table that opens
  is read to its end.
\<close>

definition getDisksUsage ::
  "string set \<Rightarrow> (string \<Rightarrow> error + string) \<Rightarrow> (string \<Rightarrow> error + statvfs_result)
     \<Rightarrow> string list option \<Rightarrow> error + disk_usage list" where
  "getDisksUsage ignored_fs decode statvfs table =
     (case table of
        Some ms \<Rightarrow> Inr (mounts_loop ignored_fs decode statvfs ms [])
      | None \<Rightarrow> Inl UnboundLocalError)"

section \<open>PkgMgr\<close>

text \<open>
  A Python set of strings is a list without duplicates; the order of \<^verbatim>\<open>list(apps)\<close> is
  not specified by Python, and no property below depends on the order chosen here.
\<close>

definition set_add :: "string \<Rightarrow> string list \<Rightarrow> string list" where
  "set_add x apps = (if x \<in> set apps then apps else apps @ [x])"

definition set_update :: "string list \<Rightarrow> string list \<Rightarrow> string list" where
  "set_update apps other = foldl (\<lambda>a x. set_add x a) apps other"

text \<open>
  The rpm module: \<^verbatim>\<open>TransactionSet().dbMatch('name', name)\<close> gives the installed headers
  of that name.
\<close>

record rpm_header =
  hdr_name :: string
  hdr_version :: string
  hdr_release :: string

type_synonym rpm_module = "string \<Rightarrow> rpm_header list"

definition rpm_list_packages :: "rpm_module \<Rightarrow> string \<Rightarrow> string list" where
  "rpm_list_packages dbMatch app_list =
     foldl (\<lambda>apps name.
              foldl (\<lambda>apps app.
                       set_add (hdr_name app @ ''-'' @ hdr_version app @ ''-'' @ hdr_release app)
                         apps)
                apps (dbMatch name))
       [] (split_ws app_list)"

text \<open>
  The apt_pkg module: a package has its current state, the string of its current version
  (\<^verbatim>\<open>current_ver.ver_str\<close>, which the code reads only of packages in the installed state)
  and its list of providers. The code uses of a provider's triple only the package that
  owns the providing version (\<^verbatim>\<open>parent_pkg\<close>), which is the third component here.
\<close>

datatype apt_package =
  Package (current_state: int) (current_ver: string)
    (provides_list: "(string \<times> string \<times> apt_package) list")

record apt_module =
  CURSTATE_INSTALLED :: int
  Cache :: "string \<rightharpoonup> apt_package"

definition apt_list_packages :: "apt_module \<Rightarrow> string \<Rightarrow> string list" where
  "apt_list_packages apt app_list =
     foldl (\<lambda>apps app.
              (case Cache apt app of
                 None \<Rightarrow> apps
               | Some pkg \<Rightarrow>
                   (if current_state pkg = CURSTATE_INSTALLED apt
                    then set_add (app @ ''-'' @ current_ver pkg) apps
                    else if length (provides_list pkg) > 0
                    then foldl (\<lambda>apps (n, v, parent_pkg).
                                  if current_state parent_pkg = CURSTATE_INSTALLED apt
                                  then set_add (app @ ''-'' @ current_ver parent_pkg) apps
                                  else apps)
                           apps (provides_list pkg)
                    else apps)))
       [] (split_ws app_list)"

text \<open>The two modules are \<open>None\<close> when their import failed in the constructor.\<close>

record pkg_mgr =
  rpm :: "rpm_module option"
  apt_pkg :: "apt_module option"

definition list_pkgs :: "pkg_mgr \<Rightarrow> string \<Rightarrow> string list" where
  "list_pkgs self app_list =
     (let apps = [];
          apps = (case rpm self of
                    None \<Rightarrow> apps
                  | Some m \<Rightarrow> set_update apps (rpm_list_packages m app_list));
          apps = (case apt_pkg self of
                    None \<Rightarrow> apps
                  | Some m \<Rightarrow> set_update apps (apt_list_packages m app_list))
      in apps)"


section \<open>NicMgr\<close>










section \<open>Command dispatch\<close>

lemma ceiling_div_60:
  fixes t :: int
  shows "\<lceil>(of_int t :: real) / 60\<rceil> = (t + 59) div 60"
proof (rule ceiling_unique)
  define q where "q = (t + 59) div 60"
  define r where "r = (t + 59) mod 60"
  have eq: "t + 59 = 60 * q + r"
    by (simp add: q_def r_def)
  have r0: "0 \<le> r" and r60: "r < 60"
    by (simp_all add: r_def)
  have lo: "60 * (q - 1) < t"
    using eq r0 r60 by (simp add: algebra_simps)
  have hi: "t \<le> 60 * q"
    using eq r0 r60 by linarith
  have "(of_int (60 * (q - 1)) :: real) < of_int t"
    using lo by (simp only: of_int_less_iff)
  then show "(of_int ((t + 59) div 60) :: real) - 1 < of_int t / 60"
    by (simp add: q_def [symmetric] field_simps)
  have "(of_int t :: real) \<le> of_int (60 * q)"
    using hi by (simp only: of_int_le_iff)
  then show "(of_int t :: real) / 60 \<le> of_int ((t + 59) div 60)"
    by (simp add: q_def [symmetric] field_simps)
qed

lemma fmt_d_1: "fmt_d 1 = ''1''"
  by code_simp

lemma fmt_d_2: "fmt_d 2 = ''2''"
  by code_simp

text \<open>
  C8. For a non-negative integer timeout, \<open>shutdown\<close> hands to the launcher exactly the
  command line made of the shutdown helper, the flag \<open>-r\<close> when reboot is set and \<open>-h\<close>
  otherwise, the delay \<open>+d\<close> with \<open>d = ceil(timeout / 60)\<close> printed in decimal, and the
  message between double quotes. A timeout of 61 seconds gives \<open>+2\<close>, one of 60 seconds
  gives \<open>+1\<close>.
\<close>

theorem shutdown_command_line:
  assumes "0 \<le> timeout"
  shows "shutdown launch timeout msg reboot =
           subprocess_call launch
             [''/usr/share/ovirt-guest-agent/ovirt-shutdown'',
              if reboot then ''-r'' else ''-h'',
              ''+'' @ fmt_d \<lceil>(of_int timeout :: real) / 60\<rceil>,
              [CHR 0x22] @ msg @ [CHR 0x22]]
         \<and> 0 \<le> \<lceil>(of_int timeout :: real) / 60\<rceil>
         \<and> fmt_d \<lceil>(of_int (61::int) :: real) / 60\<rceil> = ''2''
         \<and> fmt_d \<lceil>(of_int (60::int) :: real) / 60\<rceil> = ''1''"
proof -
  have c: "\<lceil>(of_int timeout :: real) / 60\<rceil> = (timeout + 59) div 60"
    by (rule ceiling_div_60)
  have nn: "0 \<le> \<lceil>(of_int timeout :: real) / 60\<rceil>"
    using assms by (simp add: c)
  have e61: "fmt_d \<lceil>(of_int (61::int) :: real) / 60\<rceil> = ''2''"
    by (simp only: ceiling_div_60) (simp add: fmt_d_2)
  have e60: "fmt_d \<lceil>(of_int (60::int) :: real) / 60\<rceil> = ''1''"
    by (simp only: ceiling_div_60) (simp add: fmt_d_1)
  have cmd: "shutdown launch timeout msg reboot =
           subprocess_call launch
             [''/usr/share/ovirt-guest-agent/ovirt-shutdown'',
              if reboot then ''-r'' else ''-h'',
              ''+'' @ fmt_d \<lceil>(of_int timeout :: real) / 60\<rceil>,
              [CHR 0x22] @ msg @ [CHR 0x22]]"
    by (simp only: c) (simp add: shutdown_def Let_def)
  from cmd nn e61 e60 show ?thesis
    by (intro conjI)
qed

text \<open>
  A shutdown, not a reboot, in 61 seconds: the helper is called with \<open>-h\<close> and \<open>+2\<close>.
\<close>

theorem shutdown_command_line_witness:
  "shutdown (\<lambda>cmd. Inr 0) 61 ''bye'' False =
     subprocess_call (\<lambda>cmd. Inr 0)
       [''/usr/share/ovirt-guest-agent/ovirt-shutdown'', ''-h'', ''+2'', ''\"bye\"'']"
proof -
  have h: "(0::int) \<le> 61" by simp
  have d: "\<lceil>(of_int (61::int) :: real) / 60\<rceil> = 2"
    by (simp add: ceiling_div_60)
  have "shutdown (\<lambda>cmd. Inr 0) 61 ''bye'' False =
     subprocess_call (\<lambda>cmd. Inr 0)
       [''/usr/share/ovirt-guest-agent/ovirt-shutdown'', if False then ''-r'' else ''-h'',
        ''+'' @ fmt_d \<lceil>(of_int (61::int) :: real) / 60\<rceil>, [CHR 0x22] @ ''bye'' @ [CHR 0x22]]"
    using shutdown_command_line [OF h, of "\<lambda>cmd. Inr 0" "''bye''" False] by (rule conjunct1)
  then show ?thesis
    by (simp only: d fmt_d_2) simp
qed

text \<open>
  C9 (as stated). With a launcher that cannot start the helper, \<open>lock_screen\<close>,
  \<open>shutdown\<close> and \<open>hibernate\<close> do not return normally: the OSError of
  \<^verbatim>\<open>subprocess.call\<close> leaves each of them.
\<close>

theorem launch_failure_escapes_counterexample:
  "lock_screen (\<lambda>cmd. Inl OSError) = Inl OSError
   \<and> shutdown (\<lambda>cmd. Inl OSError) 60 ''maintenance'' False = Inl OSError
   \<and> hibernate (\<lambda>cmd. Inl OSError) ''disk'' = Inl OSError"
  by (simp add: lock_screen_def shutdown_def hibernate_def subprocess_call_def)

text \<open>
  C9 (amended). The three commands surface exactly the launcher's failure: when the helper
  starts, whatever its exit status, they return normally; when the launch raises, the same
  exception reaches their caller.
\<close>

theorem launch_outcome_surfaces:
  "((\<forall>cmd. \<exists>rc. launch cmd = Inr rc) \<longrightarrow>
      lock_screen launch = Inr () \<and> shutdown launch timeout msg reboot = Inr ()
      \<and> hibernate launch state = Inr ())
   \<and> ((\<forall>cmd. launch cmd = Inl e) \<longrightarrow>
      lock_screen launch = Inl e \<and> shutdown launch timeout msg reboot = Inl e
      \<and> hibernate launch state = Inl e)"
proof (intro conjI impI)
  assume ok: "\<forall>cmd. \<exists>rc. launch cmd = Inr rc"
  have run: "subprocess_call launch cmd = Inr ()" for cmd
  proof -
    from ok obtain rc where "launch cmd = Inr rc" by blast
    then show ?thesis by (simp add: subprocess_call_def)
  qed
  show "lock_screen launch = Inr ()"
    by (simp add: lock_screen_def run)
  show "shutdown launch timeout msg reboot = Inr ()"
    by (simp add: shutdown_def Let_def run)
  show "hibernate launch state = Inr ()"
    by (simp add: hibernate_def run)
next
  assume bad: "\<forall>cmd. launch cmd = Inl e"
  have run: "subprocess_call launch cmd = Inl e" for cmd
    using bad by (simp add: subprocess_call_def)
  show "lock_screen launch = Inl e"
    by (simp add: lock_screen_def run)
  show "shutdown launch timeout msg reboot = Inl e"
    by (simp add: shutdown_def Let_def run)
  show "hibernate launch state = Inl e"
    by (simp add: hibernate_def run)
qed

text \<open>
  A helper that exits with status 1, and a launch that raises IOError.
\<close>

theorem launch_outcome_surfaces_witness:
  "(lock_screen (\<lambda>cmd. Inr 1) = Inr () \<and> shutdown (\<lambda>cmd. Inr 1) 0 ''now'' True = Inr ()
    \<and> hibernate (\<lambda>cmd. Inr 1) ''mem'' = Inr ())
   \<and> (lock_screen (\<lambda>cmd. Inl IOError) = Inl IOError
    \<and> shutdown (\<lambda>cmd. Inl IOError) 0 ''now'' True = Inl IOError
    \<and> hibernate (\<lambda>cmd. Inl IOError) ''mem'' = Inl IOError)"
proof -
  have a: "\<forall>cmd::string list. \<exists>rc::int. (Inr 1 :: error + int) = Inr rc" by simp
  have b: "\<forall>cmd::string list. (Inl IOError :: error + int) = Inl IOError" by simp
  from launch_outcome_surfaces [where launch = "\<lambda>cmd. Inr 1" and timeout = 0 and msg = "''now''"
      and reboot = True and state = "''mem''" and e = IOError] a
  have l: "lock_screen (\<lambda>cmd. Inr 1) = Inr () \<and> shutdown (\<lambda>cmd. Inr 1) 0 ''now'' True = Inr ()
    \<and> hibernate (\<lambda>cmd. Inr 1) ''mem'' = Inr ()"
    by blast
  from launch_outcome_surfaces [where launch = "\<lambda>cmd. Inl IOError" and timeout = 0
      and msg = "''now''" and reboot = True and state = "''mem''" and e = IOError] b
  have r: "lock_screen (\<lambda>cmd. Inl IOError) = Inl IOError
    \<and> shutdown (\<lambda>cmd. Inl IOError) 0 ''now'' True = Inl IOError
    \<and> hibernate (\<lambda>cmd. Inl IOError) ''mem'' = Inl IOError"
    by blast
  from l r show ?thesis by (rule conjI)
qed

section \<open>The loop over the counter source\<close>








lemma vmstat_loop_append:
  "vmstat_loop interval (xs @ ys) r =
     (case vmstat_loop interval xs r of
        (Inl e, r') \<Rightarrow> (Inl e, r')
      | (Inr u, r') \<Rightarrow> vmstat_loop interval ys r')"
  by (induction xs arbitrary: r) (auto split: prod.splits sum.splits)

section \<open>Evaluation of the example runs\<close>

lemmas eval_defs =
  getMemoryStats_def get_meminfo_def get_vmstat_def meminfo_line_def vmstat_line_def
  parse_line_def split_ws_def is_space_def py_int_def is_digit_def digits_val_def
  digit_val_def meminfo_keys_def vmstat_fields_def Let_def py_trunc_def
  new_retriever_def init_vmstat_def zero_snapshot_def ex_meminfo_def ex_vmstat_def

lemma fmt_d_digits: "fmt_d 10 = ''10''" "fmt_d 20 = ''20''" "fmt_d 9 = ''9''" "fmt_d 17 = ''17''" "fmt_d 30 = ''30''" "fmt_d 40 = ''40''"
  by code_simp+

lemma ex_r1_fields:
  "timestamp_prev ex_r1 = 1"
  "vmstat_cur ex_r1 ''swap_in'' = Some 10"
  "vmstat_prev ex_r1 ''swap_in'' = Some 10"
  "memStats ex_r1 ''swap_in'' = Some 0"
  "memStats ex_r1 ''mem_total'' = Some 1000"
  by (simp_all add: ex_r1_def eval_defs fmt_d_digits)

lemma get_meminfo_frame:
  assumes "get_meminfo src r = (out, r')"
  shows "timestamp_prev r' = timestamp_prev r \<and> timestamp_cur r' = timestamp_cur r
    \<and> vmstat_prev r' = vmstat_prev r \<and> vmstat_cur r' = vmstat_cur r"
  using assms by (auto simp: get_meminfo_def split: option.splits sum.splits prod.splits)


section \<open>Rates of the cumulative counters\<close>







section \<open>Samples without elapsed time\<close>

lemma vmstat_line_zero_memStats:
  "vmstat_line 0 l r = (out, r') \<Longrightarrow> memStats r' = memStats r"
  by (auto simp: vmstat_line_def Let_def split: sum.splits option.splits prod.splits)

lemma vmstat_loop_zero_memStats:
  "vmstat_loop 0 ls r = (out, r') \<Longrightarrow> memStats r' = memStats r"
proof (induction ls arbitrary: r)
  case Nil
  then show ?case by simp
next
  case (Cons l ls)
  obtain o1 r1 where s: "vmstat_line 0 l r = (o1, r1)"
    by (cases "vmstat_line 0 l r")
  note m = vmstat_line_zero_memStats [OF s]
  show ?case
  proof (cases o1)
    case (Inl e)
    with Cons.prems s m show ?thesis by simp
  next
    case (Inr u)
    with Cons.prems s have "vmstat_loop 0 ls r1 = (out, r')" by simp
    from Cons.IH [OF this] m show ?thesis by simp
  qed
qed

lemma get_vmstat_zero_memStats:
  assumes "now = timestamp_prev r" and "get_vmstat now src r = (out, r')"
  shows "memStats r' = memStats r"
proof (cases src)
  case None
  with assms show ?thesis by (auto simp: get_vmstat_def Let_def)
next
  case (Some ls)
  with assms have "vmstat_loop 0 ls (r\<lparr>timestamp_cur := Some now, timestamp_prev := now\<rparr>)
      = (out, r')"
    by (simp add: get_vmstat_def Let_def)
  from vmstat_loop_zero_memStats [OF this] show ?thesis by simp
qed

lemma get_meminfo_rates:
  assumes "get_meminfo src r = (out, r')" and "n \<in> set rate_names"
  shows "memStats r' n = memStats r n"
  using assms
  by (auto simp: get_meminfo_def rate_names_def vmstat_fields_def
      split: option.splits sum.splits prod.splits)

lemma vmstat_line_untracked:
  assumes "vmstat_line_ok l" and "line_name l = None"
  shows "vmstat_line interval l r = (Inr (), r)"
  using assms
  by (auto simp: vmstat_line_def vmstat_line_ok_def line_name_def
      split: sum.splits option.splits prod.splits)

lemma vmstat_loop_untracked:
  "list_all vmstat_line_ok ls \<Longrightarrow> \<forall>x \<in> set ls. line_name x = None \<Longrightarrow>
     vmstat_loop interval ls r = (Inr (), r)"
  by (induction ls) (simp_all add: vmstat_line_untracked)

lemma vmstat_line_zero_raises:
  assumes "parse_line l = Inr (key, val)" and "map_of vmstat_fields key = Some n"
    and "py_int val = Inr v"
  shows "fst (vmstat_line 0 l r) = Inl ZeroDivisionError"
  using assms by (simp add: vmstat_line_def Let_def)

text \<open>
  C2 (amended). In a memory-stats sample taken at the very clock value of the previous
  timestamp (elapsed interval exactly 0), the snapshot returned carries for each of the
  four counters the rate it carried before. The division is not avoided: when the counter
  source reaches a tracked line, \<open>get_vmstat\<close> raises ZeroDivisionError there, and
  \<open>getMemoryStats\<close>, which has no exceptional result, returns the snapshot.
\<close>

theorem zero_interval_keeps_rates:
  assumes "now = timestamp_prev r"
  shows "(\<forall>n \<in> set rate_names. fst (getMemoryStats now meminfo vmstat r) n = memStats r n)
    \<and> (list_all vmstat_line_ok pre \<and> (\<forall>x \<in> set pre. line_name x = None)
         \<and> parse_line l = Inr (key, val) \<and> map_of vmstat_fields key = Some name
         \<and> py_int val = Inr v
       \<longrightarrow> fst (get_vmstat now (Some (pre @ l # post)) r) = Inl ZeroDivisionError)"
proof (intro conjI ballI impI)
  fix n
  assume n: "n \<in> set rate_names"
  obtain o1 r1 where m: "get_meminfo meminfo r = (o1, r1)"
    by (cases "get_meminfo meminfo r")
  note keep = get_meminfo_rates [OF m n]
  show "fst (getMemoryStats now meminfo vmstat r) n = memStats r n"
  proof (cases o1)
    case (Inl e)
    with m keep show ?thesis by (simp add: getMemoryStats_def)
  next
    case (Inr u)
    obtain o2 r2 where v: "get_vmstat now vmstat r1 = (o2, r2)"
      by (cases "get_vmstat now vmstat r1")
    have "now = timestamp_prev r1"
      using assms get_meminfo_frame [OF m] by simp
    from get_vmstat_zero_memStats [OF this v] have "memStats r2 = memStats r1" .
    with Inr m v keep show ?thesis by (simp add: getMemoryStats_def)
  qed
next
  assume a: "list_all vmstat_line_ok pre \<and> (\<forall>x \<in> set pre. line_name x = None)
         \<and> parse_line l = Inr (key, val) \<and> map_of vmstat_fields key = Some name
         \<and> py_int val = Inr v"
  let ?r2 = "r\<lparr>timestamp_cur := Some now, timestamp_prev := now\<rparr>"
  from a have pre: "vmstat_loop 0 pre ?r2 = (Inr (), ?r2)"
    by (intro vmstat_loop_untracked) simp_all
  from a have "fst (vmstat_line 0 l ?r2) = Inl ZeroDivisionError"
    using vmstat_line_zero_raises [of l key val name v ?r2] by blast
  then have "fst (vmstat_loop 0 (l # post) ?r2) = Inl ZeroDivisionError"
    by (cases "vmstat_line 0 l ?r2") (auto split: sum.splits)
  with pre show "fst (get_vmstat now (Some (pre @ l # post)) r) = Inl ZeroDivisionError"
    using assms by (simp add: get_vmstat_def Let_def vmstat_loop_append)
qed

text \<open>
  C2 (as stated). With a negative elapsed interval (the clock stepped back from 1 to 0)
  the last reported rate, 0, is not reused: the sample reports \<open>(17 - 10) / (-1)\<close>.
\<close>

theorem negative_interval_counterexample:
  "timestamp_prev ex_r1 = 1 \<and> memStats ex_r1 ''swap_in'' = Some 0
   \<and> fst (getMemoryStats 0 (Some ex_meminfo) (Some (ex_vmstat 17 20)) ex_r1) ''swap_in''
       = Some (- 7)"
  by (simp add: ex_r1_def eval_defs fmt_d_digits)

text \<open>
  A second sample of the example agent at the clock value of its first one.
\<close>

theorem zero_interval_keeps_rates_witness:
  "fst (getMemoryStats 1 (Some ex_meminfo) (Some (ex_vmstat 17 20)) ex_r1) ''swap_in''
     = memStats ex_r1 ''swap_in''
   \<and> fst (getMemoryStats 1 (Some ex_meminfo) (Some (ex_vmstat 17 20)) ex_r1) ''swap_out''
     = memStats ex_r1 ''swap_out''
   \<and> fst (get_vmstat 1 (Some (ex_vmstat 17 20)) ex_r1) = Inl ZeroDivisionError"
proof -
  let ?pre = "[''nr_free_pages 5'']" and ?l = "''pswpin 17''" and ?post = "[''pswpout 20'']"
  have src: "ex_vmstat 17 20 = ?pre @ ?l # ?post"
    by (simp add: ex_vmstat_def fmt_d_digits)
  have h: "1 = timestamp_prev ex_r1"
    by (simp add: ex_r1_fields)
  have names: "''swap_in'' \<in> set rate_names" "''swap_out'' \<in> set rate_names"
    by (simp_all add: rate_names_def vmstat_fields_def)
  have line: "list_all vmstat_line_ok ?pre \<and> (\<forall>x \<in> set ?pre. line_name x = None)
     \<and> parse_line ?l = Inr (''pswpin'', ''17'')
     \<and> map_of vmstat_fields ''pswpin'' = Some ''swap_in'' \<and> py_int ''17'' = Inr 17"
    by (simp add: vmstat_line_ok_def line_name_def eval_defs)
  note t = zero_interval_keeps_rates [OF h, where meminfo = "Some ex_meminfo"
      and vmstat = "Some (ex_vmstat 17 20)" and pre = ?pre and l = ?l and post = ?post
      and key = "''pswpin''" and val = "''17''" and name = "''swap_in''" and v = 17]
  from t names have a: "fst (getMemoryStats 1 (Some ex_meminfo) (Some (ex_vmstat 17 20)) ex_r1)
      ''swap_in'' = memStats ex_r1 ''swap_in''"
    and b: "fst (getMemoryStats 1 (Some ex_meminfo) (Some (ex_vmstat 17 20)) ex_r1)
      ''swap_out'' = memStats ex_r1 ''swap_out''"
    by blast+
  from t line have c: "fst (get_vmstat 1 (Some (ex_vmstat 17 20)) ex_r1) = Inl ZeroDivisionError"
    unfolding src by blast
  from a b c show ?thesis by (intro conjI)
qed

section \<open>Parse failures within a sample\<close>

lemma meminfo_line_fails:
  "\<not> meminfo_line_ok l \<Longrightarrow> \<exists>e. meminfo_line l acc = Inl e"
  by (auto simp: meminfo_line_ok_def meminfo_line_def split: sum.splits prod.splits if_splits)

lemma meminfo_loop_fails:
  "\<not> list_all meminfo_line_ok ls \<Longrightarrow> \<exists>e. meminfo_loop ls acc = Inl e"
proof (induction ls arbitrary: acc)
  case Nil
  then show ?case by simp
next
  case (Cons l ls)
  show ?case
  proof (cases "meminfo_line l acc")
    case (Inl e)
    then show ?thesis by simp
  next
    case (Inr acc')
    with meminfo_line_fails [of l acc] have "meminfo_line_ok l" by auto
    with Cons.prems have "\<not> list_all meminfo_line_ok ls" by simp
    from Cons.IH [OF this, of acc'] Inr show ?thesis by simp
  qed
qed

lemma meminfo_loop_ok:
  "list_all meminfo_line_ok ls \<Longrightarrow> \<exists>acc'. meminfo_loop ls acc = Inr acc'"
proof (induction ls arbitrary: acc)
  case Nil
  then show ?case by simp
next
  case (Cons l ls)
  then have "meminfo_line_ok l" by simp
  then have "\<exists>acc1. meminfo_line l acc = Inr acc1"
    by (auto simp: meminfo_line_ok_def meminfo_line_def meminfo_keys_def
        split: sum.splits prod.splits if_splits)
  then obtain acc1 where "meminfo_line l acc = Inr acc1" by blast
  with Cons show ?case by simp
qed

lemma vmstat_line_fails:
  "\<not> vmstat_line_ok l \<Longrightarrow> \<exists>e r'. vmstat_line interval l r = (Inl e, r')"
  by (auto simp: vmstat_line_ok_def vmstat_line_def Let_def
      split: sum.splits prod.splits option.splits)

lemma vmstat_loop_stops:
  assumes "\<not> vmstat_line_ok bad"
  shows "vmstat_loop interval (pre @ bad # post) r = vmstat_loop interval (pre @ [bad]) r"
proof -
  have "vmstat_loop interval (bad # post) s = vmstat_loop interval [bad] s" for s
    using vmstat_line_fails [OF assms, of interval s] by auto
  then show ?thesis
    by (simp add: vmstat_loop_append split: prod.splits sum.splits)
qed

text \<open>
  C3 (amended). A line that fails to parse aborts the rest of the sample. When it is a
  line of the memory source, \<open>getMemoryStats\<close> returns the snapshot it had and leaves
  the object as it was: no field is updated and the counter source is not read. When it is
  a line of the counter source, the lines after it are not processed: the sample is the one
  of the source cut after that line. In both cases the snapshot is returned.
\<close>

theorem parse_failure_aborts_sample:
  "(\<not> list_all meminfo_line_ok mi \<longrightarrow>
      getMemoryStats now (Some mi) vmstat r = (memStats r, r))
   \<and> (\<not> vmstat_line_ok bad \<longrightarrow>
      getMemoryStats now meminfo (Some (pre @ bad # post)) r
        = getMemoryStats now meminfo (Some (pre @ [bad])) r)"
proof (intro conjI impI)
  assume "\<not> list_all meminfo_line_ok mi"
  from meminfo_loop_fails [OF this]
  obtain e where "meminfo_loop mi (\<lambda>k. 0, 0) = Inl e" by blast
  then show "getMemoryStats now (Some mi) vmstat r = (memStats r, r)"
    by (simp add: getMemoryStats_def get_meminfo_def)
next
  assume "\<not> vmstat_line_ok bad"
  from vmstat_loop_stops [OF this]
  have eq: "get_vmstat now (Some (pre @ bad # post)) s = get_vmstat now (Some (pre @ [bad])) s"
    for s
    by (simp add: get_vmstat_def Let_def)
  show "getMemoryStats now meminfo (Some (pre @ bad # post)) r
        = getMemoryStats now meminfo (Some (pre @ [bad])) r"
    by (simp add: getMemoryStats_def eq split: prod.splits sum.splits)
qed

text \<open>
  C3 (as stated). After the one-token line \<open>Bogus\<close>, the parseable line
  \<open>MemFree: 200 kB\<close> is not read: the snapshot keeps \<open>mem_unused = 0\<close> where the same
  sample of a well-formed source stores 200, and the counters are not sampled at all.
\<close>

theorem parse_failure_counterexample:
  "meminfo_line_ok ''MemFree: 200 kB''
   \<and> fst (getMemoryStats 1 (Some ex_bad_meminfo) (Some (ex_vmstat 10 20))
          (new_retriever 0 zero_snapshot)) ''mem_unused'' = Some 0
   \<and> fst (getMemoryStats 1 (Some ex_meminfo) (Some (ex_vmstat 10 20))
          (new_retriever 0 zero_snapshot)) ''mem_unused'' = Some 200
   \<and> vmstat_cur (snd (getMemoryStats 1 (Some ex_bad_meminfo) (Some (ex_vmstat 10 20))
          (new_retriever 0 zero_snapshot))) ''swap_in'' = None
   \<and> vmstat_cur (snd (getMemoryStats 1 (Some ex_meminfo) (Some (ex_vmstat 10 20))
          (new_retriever 0 zero_snapshot))) ''swap_in'' = Some 10"
  by (simp add: meminfo_line_ok_def ex_bad_meminfo_def eval_defs fmt_d_digits)

text \<open>
  The memory source with the one-token line, and a counter source with one.
\<close>

theorem parse_failure_aborts_sample_witness:
  "getMemoryStats 1 (Some ex_bad_meminfo) (Some (ex_vmstat 10 20))
       (new_retriever 0 zero_snapshot)
     = (zero_snapshot, new_retriever 0 zero_snapshot)
   \<and> getMemoryStats 3 (Some ex_meminfo) (Some [''pswpin 17'', ''garbage'', ''pswpout 30'']) ex_r1
     = getMemoryStats 3 (Some ex_meminfo) (Some [''pswpin 17'', ''garbage'']) ex_r1"
proof -
  have h1: "\<not> list_all meminfo_line_ok ex_bad_meminfo"
    by (simp add: meminfo_line_ok_def ex_bad_meminfo_def eval_defs)
  have h2: "\<not> vmstat_line_ok ''garbage''"
    by (simp add: vmstat_line_ok_def eval_defs)
  have m: "memStats (new_retriever 0 zero_snapshot) = zero_snapshot"
    by (simp add: new_retriever_def init_vmstat_def)
  from parse_failure_aborts_sample [where mi = ex_bad_meminfo and now = 1
      and vmstat = "Some (ex_vmstat 10 20)" and r = "new_retriever 0 zero_snapshot"] h1 m
  have a: "getMemoryStats 1 (Some ex_bad_meminfo) (Some (ex_vmstat 10 20))
       (new_retriever 0 zero_snapshot)
     = (zero_snapshot, new_retriever 0 zero_snapshot)"
    by simp
  from parse_failure_aborts_sample [where bad = "''garbage''" and now = 3
      and meminfo = "Some ex_meminfo" and pre = "[''pswpin 17'']" and post = "[''pswpout 30'']"
      and r = ex_r1] h2
  have b: "getMemoryStats 3 (Some ex_meminfo) (Some [''pswpin 17'', ''garbage'', ''pswpout 30''])
       ex_r1
     = getMemoryStats 3 (Some ex_meminfo) (Some [''pswpin 17'', ''garbage'']) ex_r1"
    by simp
  from a b show ?thesis by (rule conjI)
qed

section \<open>Failed samples and the previous timestamp\<close>

lemma ex_r2_fields:
  "timestamp_prev ex_r2 = 3"
  "vmstat_prev ex_r2 ''swap_in'' = Some 10"
  "vmstat_cur ex_r2 ''swap_in'' = Some 30"
  "memStats ex_r2 ''swap_in'' = Some 10"
  by (simp_all add: ex_r2_def ex_r1_def eval_defs fmt_d_digits)




section \<open>Disk usage with an unreadable mount table\<close>

text \<open>
  C4 (the code at the failing input). When the mount table cannot be opened,
  \<open>getDisksUsage\<close> does not return an empty list: the handler of its outer \<^verbatim>\<open>try\<close>
  raises UnboundLocalError, which reaches the caller.
\<close>

theorem getDisksUsage_unreadable_mounts:
  "getDisksUsage ignored_fs decode statvfs None = Inl UnboundLocalError"
  by (simp add: getDisksUsage_def)

section \<open>Package inventory\<close>

lemma set_add_set: "set (set_add x apps) = insert x (set apps)"
  by (auto simp: set_add_def)

lemma set_add_distinct: "distinct apps \<Longrightarrow> distinct (set_add x apps)"
  by (simp add: set_add_def)

lemma set_update_set: "set (set_update apps other) = set apps \<union> set other"
  unfolding set_update_def
  by (induction other arbitrary: apps) (auto simp: set_add_set)

lemma set_update_distinct: "distinct apps \<Longrightarrow> distinct (set_update apps other)"
  unfolding set_update_def
  by (induction other arbitrary: apps) (simp_all add: set_add_distinct)

text \<open>
  C5. For every requested-name string, \<open>list_pkgs\<close> returns a list without duplicates
  whose elements are exactly the records of the rpm backend, when present, together with
  those of the apt backend, when present; with neither backend it returns the empty list.
\<close>

theorem list_pkgs_dedup_union:
  "distinct (list_pkgs self app_list)
   \<and> set (list_pkgs self app_list) =
       (case rpm self of None \<Rightarrow> {} | Some m \<Rightarrow> set (rpm_list_packages m app_list))
       \<union> (case apt_pkg self of None \<Rightarrow> {} | Some m \<Rightarrow> set (apt_list_packages m app_list))
   \<and> list_pkgs \<lparr>rpm = None, apt_pkg = None\<rparr> app_list = []"
  by (simp add: list_pkgs_def set_update_set set_update_distinct split: option.splits)







section \<open>Network interfaces\<close>







end
